theory Spec2Isabelle
  imports Main
begin

section \<open>Context menus in the graphics scene: the model of main.cpp\<close>

text \<open>
  The development follows \<^verbatim>\<open>src/main.cpp\<close>. A C++ class with virtual methods is a record
  of its methods (one field per virtual function), so that any subclass is a value of the
  record; a \<^verbatim>\<open>shared_ptr\<close> that may be null is an \<open>option\<close>. Everything the commands read or
  write outside their arguments (the application clipboard, the modal message boxes, the
  debug stream) is collected in the record \<open>World\<close> and passed explicitly.
  A \<^verbatim>\<open>QString\<close> is a \<open>string\<close>; the Chinese labels of the source file are written as
  their UTF-8 bytes.
\<close>

subsection \<open>Collaborators: strings, items, variants, the world\<close>

type_synonym QString = string

type_synonym addr = nat

text \<open>\<^verbatim>\<open>BaseCustomItem\<close>: the pure virtual \<^verbatim>\<open>objectType()\<close> is the field.\<close>

record BaseCustomItem =
  objectType :: QString

definition CustomItem :: BaseCustomItem where
  "CustomItem = \<lparr>objectType = ''TextItem''\<rparr>"

definition CustomItem2 :: BaseCustomItem where
  "CustomItem2 = \<lparr>objectType = ''Special''\<rparr>"

definition CustomItem3 :: BaseCustomItem where
  "CustomItem3 = \<lparr>objectType = ''Circle''\<rparr>"

text \<open>
  What \<^verbatim>\<open>itemAt\<close> returns when it is not null: a graphics item on which
  \<^verbatim>\<open>dynamic_cast<BaseCustomItem*>\<close> succeeds, or one on which it fails.
\<close>

datatype QGraphicsItem = IsBaseCustomItem BaseCustomItem | OtherGraphicsItem

text \<open>
  The values stored in \<^verbatim>\<open>extras\<close>: a list of item pointers (each possibly null), or
  a variant of another type.
\<close>

datatype QVariant = ItemList "BaseCustomItem option list" | OtherVariant

text \<open>
  \<^verbatim>\<open>extras.value(key).value<QList<BaseCustomItem*>>()\<close>: a missing key gives an invalid
  variant, and a variant that does not hold the list converts to the empty list.
\<close>

fun toItemList :: "QVariant option \<Rightarrow> BaseCustomItem option list" where
  "toItemList (Some (ItemList l)) = l"
| "toItemList _ = []"

record World =
  clipboard :: QString
  messageBoxes :: "(QString \<times> QString) list"
  debugOutput :: "QString list"

text \<open>\<^verbatim>\<open>QMessageBox::information(nullptr, title, body)\<close>\<close>

definition information :: "QString \<Rightarrow> QString \<Rightarrow> World \<Rightarrow> World" where
  "information title body w = w\<lparr>messageBoxes := messageBoxes w @ [(title, body)]\<rparr>"

text \<open>\<^verbatim>\<open>qDebug() << line\<close>\<close>

definition qDebug :: "QString \<Rightarrow> World \<Rightarrow> World" where
  "qDebug line w = w\<lparr>debugOutput := debugOutput w @ [line]\<rparr>"

text \<open>\<^verbatim>\<open>BaseCustomItem::copy\<close>\<close>

definition copy :: "BaseCustomItem \<Rightarrow> World \<Rightarrow> World" where
  "copy it w = information ''Copy'' (''Copy action: objectType = '' @ objectType it) w"

subsection \<open>CommandContext\<close>

record CommandContext =
  target :: "addr option"
  extras :: "QString \<rightharpoonup> QVariant"
  scene :: "addr option"
  view :: "addr option"
  item :: "addr option"

text \<open>\<^verbatim>\<open>std::make_shared<CommandContext>()\<close>: every member at its default.\<close>

definition make_CommandContext :: CommandContext where
  "make_CommandContext =
     \<lparr>target = None, extras = Map.empty, scene = None, view = None, item = None\<rparr>"

subsection \<open>Commands\<close>

record ICommand =
  execute :: "CommandContext \<Rightarrow> World \<Rightarrow> World"
  isEnable :: "CommandContext \<Rightarrow> World \<Rightarrow> bool"
  isVisible :: "CommandContext \<Rightarrow> World \<Rightarrow> bool"

text \<open>The two defaults of the interface, inherited by a class that does not override them.\<close>

definition ICommand_isEnable :: "CommandContext \<Rightarrow> World \<Rightarrow> bool" where
  "ICommand_isEnable ctx w = True"

definition ICommand_isVisible :: "CommandContext \<Rightarrow> World \<Rightarrow> bool" where
  "ICommand_isVisible ctx w = True"

text \<open>
  \<^verbatim>\<open>CompositeCommand\<close>: the private vector \<^verbatim>\<open>commands\<close> is the state of the object;
  \<^verbatim>\<open>addCommand\<close> returns the new vector.
\<close>

definition addCommand :: "ICommand option \<Rightarrow> ICommand option list \<Rightarrow> ICommand option list" where
  "addCommand cmd commands = (if cmd \<noteq> None then commands @ [cmd] else commands)"

fun CompositeCommand_execute :: "ICommand option list \<Rightarrow> CommandContext \<Rightarrow> World \<Rightarrow> World" where
  "CompositeCommand_execute [] ctx w = w"
| "CompositeCommand_execute (cmd # commands) ctx w =
     CompositeCommand_execute commands ctx
       (case cmd of Some c \<Rightarrow> execute c ctx w | None \<Rightarrow> w)"

definition CompositeCommand :: "ICommand option list \<Rightarrow> ICommand" where
  "CompositeCommand commands =
     \<lparr>execute = CompositeCommand_execute commands,
      isEnable = ICommand_isEnable,
      isVisible = ICommand_isVisible\<rparr>"

text \<open>\<^verbatim>\<open>CommandUtils::combineCommands\<close>: a fresh composite, then one \<^verbatim>\<open>addCommand\<close> per element.\<close>

fun combineCommands_loop :: "ICommand option list \<Rightarrow> ICommand option list \<Rightarrow> ICommand option list" where
  "combineCommands_loop [] combo = combo"
| "combineCommands_loop (cmd # rest) combo = combineCommands_loop rest (addCommand cmd combo)"

definition combineCommands :: "ICommand option list \<Rightarrow> ICommand" where
  "combineCommands list = CompositeCommand (combineCommands_loop list [])"

fun CopyCommand_loop :: "BaseCustomItem option list \<Rightarrow> World \<Rightarrow> World" where
  "CopyCommand_loop [] w = w"
| "CopyCommand_loop (it # list) w =
     CopyCommand_loop list (case it of Some i \<Rightarrow> copy i w | None \<Rightarrow> w)"

definition CopyCommand :: ICommand where
  "CopyCommand =
     \<lparr>execute = (\<lambda>ctx w. CopyCommand_loop (toItemList (extras ctx ''selection'')) w),
      isEnable = ICommand_isEnable,
      isVisible = ICommand_isVisible\<rparr>"

definition PasteCommand :: ICommand where
  "PasteCommand =
     \<lparr>execute = (\<lambda>ctx w. information ''paste'' (clipboard w) w),
      isEnable = (\<lambda>ctx w. \<not> (clipboard w = [])),
      isVisible = ICommand_isVisible\<rparr>"

definition NullCommand :: ICommand where
  "NullCommand =
     \<lparr>execute = (\<lambda>ctx w. w),
      isEnable = ICommand_isEnable,
      isVisible = ICommand_isVisible\<rparr>"

definition CustomCommand1 :: ICommand where
  "CustomCommand1 =
     \<lparr>execute = (\<lambda>ctx w. qDebug ''CustomCommand1 executed'' w),
      isEnable = ICommand_isEnable,
      isVisible = ICommand_isVisible\<rparr>"

definition CustomCommand2 :: ICommand where
  "CustomCommand2 =
     \<lparr>execute = (\<lambda>ctx w. qDebug ''CustomCommand2 executed'' w),
      isEnable = ICommand_isEnable,
      isVisible = ICommand_isVisible\<rparr>"

subsection \<open>Menus\<close>

text \<open>
  A \<^verbatim>\<open>QMenu\<close> is the list of its actions, in the order they were added. An action added
  by \<^verbatim>\<open>addAction(text)\<close> has its text, its enabled flag and the slot connected to
  \<^verbatim>\<open>triggered\<close> (the closure over the command and the context);
  \<^verbatim>\<open>addSeparator()\<close> adds a separator; \<^verbatim>\<open>addMenu(sub)\<close> adds the sub-menu with its title.
\<close>

datatype QAction =
    Action (actionText: QString) (isEnabled: bool) (triggered: "World \<Rightarrow> World")
  | Separator
  | SubMenu QString "QAction list"

type_synonym QMenu = "QAction list"

text \<open>
  \<^verbatim>\<open>MenuStrategy::addCommandAction\<close> with a command: a null command and a command that
  is not visible leave the menu as it is.
\<close>

definition addCommandAction ::
  "QMenu \<Rightarrow> QString \<Rightarrow> ICommand option \<Rightarrow> CommandContext \<Rightarrow> World \<Rightarrow> QMenu" where
  "addCommandAction menu txt cmd ctx w =
     (case cmd of
        None \<Rightarrow> menu
      | Some c \<Rightarrow>
          if \<not> isVisible c ctx w then menu
          else menu @ [Action txt (isEnable c ctx w) (execute c ctx)])"

text \<open>The overload without a command: \<^verbatim>\<open>std::make_shared<NullCommand>()\<close> is bound.\<close>

definition addCommandAction_default :: "QMenu \<Rightarrow> QString \<Rightarrow> CommandContext \<Rightarrow> World \<Rightarrow> QMenu" where
  "addCommandAction_default menu txt ctx w = addCommandAction menu txt (Some NullCommand) ctx w"

subsection \<open>The labels of the entries\<close>

text \<open>
  Each label is the UTF-8 encoding of the string literal of the source; the code points and
  an English gloss are given with it.
\<close>

text \<open>U+590D U+5236 (``copy'')\<close>

definition label_copy :: QString where
  "label_copy =
     [CHR 0xE5, CHR 0xA4, CHR 0x8D, CHR 0xE5, CHR 0x88, CHR 0xB6]"

text \<open>U+526A U+5207 (``cut'')\<close>

definition label_cut :: QString where
  "label_cut =
     [CHR 0xE5, CHR 0x89, CHR 0xAA, CHR 0xE5, CHR 0x88, CHR 0x87]"

text \<open>U+7C98 U+8D34 (``paste'')\<close>

definition label_paste :: QString where
  "label_paste =
     [CHR 0xE7, CHR 0xB2, CHR 0x98, CHR 0xE8, CHR 0xB4, CHR 0xB4]"

text \<open>U+7F16 U+8F91 U+6587 U+672C (``edit text'')\<close>

definition label_edit_text :: QString where
  "label_edit_text =
     [CHR 0xE7, CHR 0xBC, CHR 0x96, CHR 0xE8, CHR 0xBE, CHR 0x91, CHR 0xE6, CHR 0x96,
      CHR 0x87, CHR 0xE6, CHR 0x9C, CHR 0xAC]"

text \<open>U+6539 U+53D8 U+5B57 U+4F53 (``change font'')\<close>

definition label_change_font :: QString where
  "label_change_font =
     [CHR 0xE6, CHR 0x94, CHR 0xB9, CHR 0xE5, CHR 0x8F, CHR 0x98, CHR 0xE5, CHR 0xAD,
      CHR 0x97, CHR 0xE4, CHR 0xBD, CHR 0x93]"

text \<open>U+6DFB U+52A0 U+5E7B U+706F U+7247 (``add slide'')\<close>

definition label_add_slide :: QString where
  "label_add_slide =
     [CHR 0xE6, CHR 0xB7, CHR 0xBB, CHR 0xE5, CHR 0x8A, CHR 0xA0, CHR 0xE5, CHR 0xB9,
      CHR 0xBB, CHR 0xE7, CHR 0x81, CHR 0xAF, CHR 0xE7, CHR 0x89, CHR 0x87]"

text \<open>U+7248 U+5F0F U+5E03 U+5C40 (``layout'')\<close>

definition label_layout :: QString where
  "label_layout =
     [CHR 0xE7, CHR 0x89, CHR 0x88, CHR 0xE5, CHR 0xBC, CHR 0x8F, CHR 0xE5, CHR 0xB8,
      CHR 0x83, CHR 0xE5, CHR 0xB1, CHR 0x80]"

text \<open>U+65E0 U+516C U+5171 U+64CD U+4F5C U+FF0C U+4EC5 U+7279 U+6B8A U+64CD U+4F5C (``no common operations, special operations only'')\<close>

definition label_special_only :: QString where
  "label_special_only =
     [CHR 0xE6, CHR 0x97, CHR 0xA0, CHR 0xE5, CHR 0x85, CHR 0xAC, CHR 0xE5, CHR 0x85,
      CHR 0xB1, CHR 0xE6, CHR 0x93, CHR 0x8D, CHR 0xE4, CHR 0xBD, CHR 0x9C, CHR 0xEF,
      CHR 0xBC, CHR 0x8C, CHR 0xE4, CHR 0xBB, CHR 0x85, CHR 0xE7, CHR 0x89, CHR 0xB9,
      CHR 0xE6, CHR 0xAE, CHR 0x8A, CHR 0xE6, CHR 0x93, CHR 0x8D, CHR 0xE4, CHR 0xBD,
      CHR 0x9C]"

text \<open>U+6539 U+53D8 U+989C U+8272 (``change colour'')\<close>

definition label_change_colour :: QString where
  "label_change_colour =
     [CHR 0xE6, CHR 0x94, CHR 0xB9, CHR 0xE5, CHR 0x8F, CHR 0x98, CHR 0xE9, CHR 0xA2,
      CHR 0x9C, CHR 0xE8, CHR 0x89, CHR 0xB2]"

text \<open>U+6539 U+53D8 U+5927 U+5C0F (``change size'')\<close>

definition label_change_size :: QString where
  "label_change_size =
     [CHR 0xE6, CHR 0x94, CHR 0xB9, CHR 0xE5, CHR 0x8F, CHR 0x98, CHR 0xE5, CHR 0xA4,
      CHR 0xA7, CHR 0xE5, CHR 0xB0, CHR 0x8F]"

text \<open>U+56FE U+5F62 U+5C5E U+6027 (``shape properties'')\<close>

definition label_shape_properties :: QString where
  "label_shape_properties =
     [CHR 0xE5, CHR 0x9B, CHR 0xBE, CHR 0xE5, CHR 0xBD, CHR 0xA2, CHR 0xE5, CHR 0xB1,
      CHR 0x9E, CHR 0xE6, CHR 0x80, CHR 0xA7]"

text \<open>U+65CB U+8F6C (``rotate'')\<close>

definition label_rotate :: QString where
  "label_rotate =
     [CHR 0xE6, CHR 0x97, CHR 0x8B, CHR 0xE8, CHR 0xBD, CHR 0xAC]"

text \<open>U+7F29 U+653E (``scale'')\<close>

definition label_scale :: QString where
  "label_scale =
     [CHR 0xE7, CHR 0xBC, CHR 0xA9, CHR 0xE6, CHR 0x94, CHR 0xBE]"

subsection \<open>Menu strategies\<close>

text \<open>
  \<^verbatim>\<open>MenuStrategy\<close>: the one virtual method \<^verbatim>\<open>createMenu(parent, ctx)\<close>. The parent widget is
  \<^verbatim>\<open>nullptr\<close> at every call and only decides who owns the menu, so it is left out; the world
  is an argument because building a menu reads the clipboard. A fresh \<^verbatim>\<open>new QMenu(parent)\<close>
  is the empty list.
\<close>

datatype MenuStrategy = MenuStrategy (createMenu: "CommandContext \<Rightarrow> World \<Rightarrow> QMenu")

definition BaseMenuDecorator :: "MenuStrategy option \<Rightarrow> MenuStrategy" where
  "BaseMenuDecorator wrappedStrategy = MenuStrategy (\<lambda>ctx w.
     let menu = (case wrappedStrategy of Some s \<Rightarrow> createMenu s ctx w | None \<Rightarrow> []);
         menu = menu @ [Separator];
         menu = addCommandAction menu label_copy (Some CopyCommand) ctx w;
         menu = addCommandAction_default menu label_cut ctx w;
         menu = addCommandAction menu label_paste (Some PasteCommand) ctx w
     in menu)"

definition PasteOnlyMenuDecorator :: "MenuStrategy option \<Rightarrow> MenuStrategy" where
  "PasteOnlyMenuDecorator wrappedStrategy = MenuStrategy (\<lambda>ctx w.
     let menu = (case wrappedStrategy of Some s \<Rightarrow> createMenu s ctx w | None \<Rightarrow> []);
         menu = menu @ [Separator];
         menu = addCommandAction_default menu label_paste ctx w
     in menu)"

definition TextItemMenuStrategy :: MenuStrategy where
  "TextItemMenuStrategy = MenuStrategy (\<lambda>ctx w.
     let menu = [];
         menu = addCommandAction_default menu label_edit_text ctx w;
         menu = addCommandAction_default menu label_change_font ctx w
     in menu)"

definition BackgroundMenuStrategy :: MenuStrategy where
  "BackgroundMenuStrategy = MenuStrategy (\<lambda>ctx w.
     let menu = [];
         menu = addCommandAction_default menu label_add_slide ctx w;
         menu = addCommandAction_default menu label_layout ctx w
     in menu)"

definition NoBaseMenuStrategy :: MenuStrategy where
  "NoBaseMenuStrategy = MenuStrategy (\<lambda>ctx w.
     let menu = [];
         combo = [];
         combo = addCommand (Some CustomCommand1) combo;
         combo = addCommand (Some CustomCommand2) combo;
         menu = addCommandAction menu label_special_only (Some (CompositeCommand combo)) ctx w
     in menu)"

definition CircleMenuStrategy :: MenuStrategy where
  "CircleMenuStrategy = MenuStrategy (\<lambda>ctx w.
     let menu = [];
         menu = addCommandAction_default menu label_change_colour ctx w;
         menu = addCommandAction_default menu label_change_size ctx w;
         combo = combineCommands [Some CustomCommand1, Some CustomCommand2];
         subMenu = [];
         subMenu = addCommandAction subMenu label_rotate (Some combo) ctx w;
         subMenu = addCommandAction_default subMenu label_scale ctx w;
         menu = menu @ [SubMenu label_shape_properties subMenu]
     in menu)"

subsection \<open>The factory of strategies\<close>

text \<open>
  A \<^verbatim>\<open>Creator\<close> is a \<^verbatim>\<open>std::function\<close> returning a shared pointer: it may be empty
  (\<open>None\<close>), and calling an empty one throws \<^verbatim>\<open>std::bad_function_call\<close>; the pointer it
  returns may be null.
\<close>

datatype error = bad_function_call

type_synonym Creator = "(unit \<Rightarrow> MenuStrategy option) option"

definition call :: "Creator \<Rightarrow> error + MenuStrategy option" where
  "call creator = (case creator of None \<Rightarrow> Inl bad_function_call | Some f \<Rightarrow> Inr (f ()))"

record MenuStrategyFactory =
  creators :: "QString \<rightharpoonup> Creator"

text \<open>
  The singleton \<^verbatim>\<open>GetInstance()\<close> is passed explicitly, and every method returns the
  factory it leaves behind. \<^verbatim>\<open>QMap::operator[]\<close> is an assignment through a reference in
  \<^verbatim>\<open>registerCreator\<close>; in \<^verbatim>\<open>create\<close> the non-const \<^verbatim>\<open>operator[]\<close> would insert an
  empty creator for a missing key, which is written out here.
\<close>

definition registerCreator :: "QString \<Rightarrow> Creator \<Rightarrow> MenuStrategyFactory \<Rightarrow> MenuStrategyFactory" where
  "registerCreator type creator fac = fac\<lparr>creators := (creators fac)(type \<mapsto> creator)\<rparr>"

definition QMap_index :: "('k \<rightharpoonup> Creator) \<Rightarrow> 'k \<Rightarrow> Creator \<times> ('k \<rightharpoonup> Creator)" where
  "QMap_index m k = (case m k of Some v \<Rightarrow> (v, m) | None \<Rightarrow> (None, m(k \<mapsto> None)))"

definition create ::
  "QString \<Rightarrow> MenuStrategyFactory \<Rightarrow> (error + MenuStrategy option) \<times> MenuStrategyFactory" where
  "create type fac =
     (if creators fac type \<noteq> None then
        (let (creator, m) = QMap_index (creators fac) type
         in (call creator, fac\<lparr>creators := m\<rparr>))
      else (Inr None, fac))"

text \<open>\<^verbatim>\<open>registerMenuStrategies\<close>, on the factory it is given.\<close>

definition registerMenuStrategies :: "MenuStrategyFactory \<Rightarrow> MenuStrategyFactory" where
  "registerMenuStrategies fac =
     (let fac = registerCreator ''TextItem''
                  (Some (\<lambda>_. Some (BaseMenuDecorator (Some TextItemMenuStrategy)))) fac;
          fac = registerCreator ''Background''
                  (Some (\<lambda>_. Some (PasteOnlyMenuDecorator (Some BackgroundMenuStrategy)))) fac;
          fac = registerCreator ''Special''
                  (Some (\<lambda>_. Some NoBaseMenuStrategy)) fac;
          fac = registerCreator ''Circle''
                  (Some (\<lambda>_. Some (BaseMenuDecorator (Some CircleMenuStrategy)))) fac
      in fac)"

text \<open>The factory before any registration (the function-local static).\<close>

definition empty_factory :: MenuStrategyFactory where
  "empty_factory = \<lparr>creators = Map.empty\<rparr>"

subsection \<open>The scene: dispatch of a context-menu event\<close>

text \<open>
  What one call of \<^verbatim>\<open>CustomScene::contextMenuEvent\<close> ends with: the menu that was built
  and passed to \<^verbatim>\<open>exec\<close> (with the context its actions are bound to), the call of
  \<^verbatim>\<open>QGraphicsScene::contextMenuEvent\<close> (the default handling), or an exception.
\<close>

datatype Outcome = MenuShown QMenu CommandContext | DefaultHandling | Raised error

text \<open>The second half of the handler, from \<^verbatim>\<open>create("Background")\<close> on.\<close>

definition defaultStrategy_dispatch :: "MenuStrategyFactory \<Rightarrow> World \<Rightarrow> Outcome \<times> MenuStrategyFactory" where
  "defaultStrategy_dispatch fac w =
     (case create ''Background'' fac of
        (Inl e, fac') \<Rightarrow> (Raised e, fac')
      | (Inr (Some defaultStrategy), fac') \<Rightarrow>
          (let ctx = make_CommandContext;
               menu = createMenu defaultStrategy ctx w
           in (MenuShown menu ctx, fac'))
      | (Inr None, fac') \<Rightarrow> (DefaultHandling, fac'))"

text \<open>
  \<^verbatim>\<open>contextMenuEvent\<close>: \<open>this\<close> is the address of the scene and \<open>hit\<close> the result of
  \<^verbatim>\<open>itemAt(event->scenePos(), QTransform())\<close>.
\<close>

definition contextMenuEvent ::
  "addr \<Rightarrow> QGraphicsItem option \<Rightarrow> MenuStrategyFactory \<Rightarrow> World \<Rightarrow> Outcome \<times> MenuStrategyFactory" where
  "contextMenuEvent this hit fac w =
     (case hit of
        Some (IsBaseCustomItem baseItem) \<Rightarrow>
          (case create (objectType baseItem) fac of
             (Inl e, fac') \<Rightarrow> (Raised e, fac')
           | (Inr (Some strategy), fac') \<Rightarrow>
               (let ctx = make_CommandContext;
                    ctx = ctx\<lparr>scene := Some this\<rparr>;
                    ctx = ctx\<lparr>extras := (extras ctx)(''selection'' \<mapsto> ItemList [Some baseItem])\<rparr>;
                    menu = createMenu strategy ctx w
                in (MenuShown menu ctx, fac'))
           | (Inr None, fac') \<Rightarrow> defaultStrategy_dispatch fac' w)
      | _ \<Rightarrow> defaultStrategy_dispatch fac w)"

section \<open>Properties\<close>

subsection \<open>Helper lemmas\<close>

lemma combineCommands_loop_filter:
  "combineCommands_loop cs combo = combo @ filter (\<lambda>c. c \<noteq> None) cs"
  by (induction cs arbitrary: combo) (simp_all add: addCommand_def)

lemma CompositeCommand_execute_foldl:
  "CompositeCommand_execute cs ctx w = foldl (\<lambda>w c. execute c ctx w) w [c. Some c \<leftarrow> cs]"
  by (induction cs arbitrary: w) (simp_all split: option.splits)

lemma present_of_filter:
  "[c. Some c \<leftarrow> filter (\<lambda>c. c \<noteq> None) cs] = [c. Some c \<leftarrow> cs]"
  by (induction cs) (simp_all split: option.splits)

lemma addCommandAction_NullCommand:
  "addCommandAction menu txt (Some NullCommand) ctx w = menu @ [Action txt True (\<lambda>w'. w')]"
  by (simp add: addCommandAction_def NullCommand_def ICommand_isEnable_def ICommand_isVisible_def)

lemma defaultStrategy_dispatch_unregistered:
  "creators fac ''Background'' = None \<Longrightarrow> defaultStrategy_dispatch fac w = (DefaultHandling, fac)"
  by (simp add: defaultStrategy_dispatch_def create_def)

lemma defaultStrategy_dispatch_registered:
  "creators fac ''Background'' = Some (Some f) \<Longrightarrow> f () = Some S \<Longrightarrow>
     defaultStrategy_dispatch fac w =
       (MenuShown (createMenu S make_CommandContext w) make_CommandContext, fac)"
  by (cases fac) (simp add: defaultStrategy_dispatch_def create_def QMap_index_def call_def)

lemma creators_registerMenuStrategies:
  "creators (registerMenuStrategies fac) =
     (creators fac)
       (''TextItem'' \<mapsto> Some (\<lambda>_. Some (BaseMenuDecorator (Some TextItemMenuStrategy))),
        ''Background'' \<mapsto> Some (\<lambda>_. Some (PasteOnlyMenuDecorator (Some BackgroundMenuStrategy))),
        ''Special'' \<mapsto> Some (\<lambda>_. Some NoBaseMenuStrategy),
        ''Circle'' \<mapsto> Some (\<lambda>_. Some (BaseMenuDecorator (Some CircleMenuStrategy))))"
  by (simp add: registerMenuStrategies_def registerCreator_def)

lemma createMenu_Background_decorated:
  "createMenu (PasteOnlyMenuDecorator (Some BackgroundMenuStrategy)) ctx w =
     [Action label_add_slide True (\<lambda>w'. w'), Action label_layout True (\<lambda>w'. w'),
      Separator, Action label_paste True (\<lambda>w'. w')]"
  by (simp add: PasteOnlyMenuDecorator_def BackgroundMenuStrategy_def
      addCommandAction_default_def addCommandAction_NullCommand)

subsection \<open>The Paste entry of the Background menu\<close>

text \<open>
  C1. The claim: a dispatch on the Background target with an empty clipboard builds a menu
  whose paste entry is disabled, the flag being the clipboard test made when the menu is built.
  The code binds the paste entry of the Background menu to \<open>NullCommand\<close> (the overload of
  \<open>addCommandAction\<close> without a command, in \<open>PasteOnlyMenuDecorator\<close>), not to
  \<open>PasteCommand\<close> as \<open>BaseMenuDecorator\<close> does. The theorem evaluates the dispatch after
  \<open>registerMenuStrategies\<close>, at a point with no item and with the clipboard empty: the
  paste entry is enabled.
\<close>

theorem Background_paste_enabled_on_empty_clipboard:
  "fst (contextMenuEvent 0 None (registerMenuStrategies empty_factory)
          \<lparr>clipboard = [], messageBoxes = [], debugOutput = []\<rparr>) =
     MenuShown
       [Action label_add_slide True (\<lambda>w'. w'), Action label_layout True (\<lambda>w'. w'),
        Separator, Action label_paste True (\<lambda>w'. w')]
       make_CommandContext"
proof -
  let ?fac = "registerMenuStrategies empty_factory"
  have "creators ?fac ''Background'' =
      Some (Some (\<lambda>_. Some (PasteOnlyMenuDecorator (Some BackgroundMenuStrategy))))"
    by (simp add: creators_registerMenuStrategies)
  then have "defaultStrategy_dispatch ?fac w =
      (MenuShown (createMenu (PasteOnlyMenuDecorator (Some BackgroundMenuStrategy))
         make_CommandContext w) make_CommandContext, ?fac)" for w
    by (rule defaultStrategy_dispatch_registered) simp
  then show ?thesis
    by (simp add: contextMenuEvent_def createMenu_Background_decorated)
qed

subsection \<open>Adding an entry\<close>

text \<open>
  C2, as the claim states it, at a concrete input: an entry with a null command and an entry
  bound to \<open>NullCommand\<close> do not give the same menu.
\<close>

theorem addCommandAction_null_counterexample:
  "addCommandAction [] ''Cut'' None make_CommandContext
       \<lparr>clipboard = [], messageBoxes = [], debugOutput = []\<rparr> \<noteq>
   addCommandAction [] ''Cut'' (Some NullCommand) make_CommandContext
       \<lparr>clipboard = [], messageBoxes = [], debugOutput = []\<rparr>"
  by (simp add: addCommandAction_NullCommand) (simp add: addCommandAction_def)

text \<open>
  C2, amended. For every menu, label, context and world, adding an entry whose command is
  null leaves the menu exactly as it was: no entry is added and nothing fails (the guard
  \<^verbatim>\<open>if (!cmd || ...) return;\<close>). An entry bound to \<open>NullCommand\<close> is added, enabled, and
  triggering it leaves the world unchanged.
\<close>

theorem addCommandAction_null_unchanged:
  "addCommandAction menu txt None ctx w = menu \<and>
   addCommandAction menu txt (Some NullCommand) ctx w = menu @ [Action txt True (\<lambda>w'. w')]"
  by (simp add: addCommandAction_NullCommand) (simp add: addCommandAction_def)

text \<open>
  C4. If the command bound to an entry answers false to \<open>isVisible\<close> when the menu is
  built, the entry is not added: the menu is the one before the call, whatever the entries
  it already holds.
\<close>

theorem addCommandAction_invisible_absent:
  "\<not> isVisible c ctx w \<Longrightarrow> addCommandAction menu txt (Some c) ctx w = menu"
  by (simp add: addCommandAction_def)

theorem addCommandAction_invisible_absent_witness:
  "\<not> isVisible \<lparr>execute = (\<lambda>ctx w. w), isEnable = (\<lambda>ctx w. True), isVisible = (\<lambda>ctx w. False)\<rparr>
       make_CommandContext \<lparr>clipboard = ''abc'', messageBoxes = [], debugOutput = []\<rparr> \<and>
   addCommandAction [Separator] ''Hidden''
       (Some \<lparr>execute = (\<lambda>ctx w. w), isEnable = (\<lambda>ctx w. True), isVisible = (\<lambda>ctx w. False)\<rparr>)
       make_CommandContext \<lparr>clipboard = ''abc'', messageBoxes = [], debugOutput = []\<rparr> =
     [Separator]"
  using addCommandAction_invisible_absent
    [of "\<lparr>execute = (\<lambda>ctx w. w), isEnable = (\<lambda>ctx w. True), isVisible = (\<lambda>ctx w. False)\<rparr>"
        make_CommandContext "\<lparr>clipboard = ''abc'', messageBoxes = [], debugOutput = []\<rparr>"
        "[Separator]" "''Hidden''"]
  by simp

text \<open>
  C8. If the command bound to an entry is visible and not enabled when the menu is built,
  the entry is added at the end of the menu, with its label and its command, and with the
  enabled flag false.
\<close>

theorem addCommandAction_disabled_present:
  "isVisible c ctx w \<Longrightarrow> \<not> isEnable c ctx w \<Longrightarrow>
     addCommandAction menu txt (Some c) ctx w = menu @ [Action txt False (execute c ctx)]"
  by (simp add: addCommandAction_def)

theorem addCommandAction_disabled_present_witness:
  "isVisible PasteCommand make_CommandContext
       \<lparr>clipboard = [], messageBoxes = [], debugOutput = []\<rparr> \<and>
   \<not> isEnable PasteCommand make_CommandContext
       \<lparr>clipboard = [], messageBoxes = [], debugOutput = []\<rparr> \<and>
   addCommandAction [Separator] label_paste (Some PasteCommand) make_CommandContext
       \<lparr>clipboard = [], messageBoxes = [], debugOutput = []\<rparr> =
     [Separator, Action label_paste False (execute PasteCommand make_CommandContext)]"
  using addCommandAction_disabled_present
    [of PasteCommand make_CommandContext
        "\<lparr>clipboard = [], messageBoxes = [], debugOutput = []\<rparr>" "[Separator]" label_paste]
  by (simp add: PasteCommand_def ICommand_isVisible_def)

text \<open>
  C10. The overload of \<open>addCommandAction\<close> that takes only a label adds exactly one entry
  at the end of the menu; the entry is enabled and its slot leaves the world unchanged,
  whatever the context and the world (clipboard, selection). So the paste entry that
  \<open>PasteOnlyMenuDecorator\<close> adds and the cut entry that \<open>BaseMenuDecorator\<close> adds are
  present and enabled in every menu these decorators build.
\<close>

theorem addCommandAction_default_enabled:
  "addCommandAction_default menu txt ctx w = menu @ [Action txt True (\<lambda>w'. w')] \<and>
   createMenu (PasteOnlyMenuDecorator wrapped) ctx w =
     (case wrapped of Some S \<Rightarrow> createMenu S ctx w | None \<Rightarrow> []) @
       [Separator, Action label_paste True (\<lambda>w'. w')] \<and>
   Action label_cut True (\<lambda>w'. w') \<in> set (createMenu (BaseMenuDecorator wrapped) ctx w)"
  by (simp add: addCommandAction_default_def addCommandAction_NullCommand
      PasteOnlyMenuDecorator_def BaseMenuDecorator_def)
    (simp add: addCommandAction_def CopyCommand_def PasteCommand_def ICommand_isVisible_def)

subsection \<open>Decorators\<close>

text \<open>
  C3. For every wrapped strategy \<open>S\<close>, context and world, the menu built by
  \<open>BaseMenuDecorator\<close> around \<open>S\<close> is the menu built by \<open>S\<close>, then one separator, then
  the three shared entries in the order copy, cut, paste (copy and cut enabled, paste enabled
  when the clipboard is not empty). This holds when \<open>S\<close> builds the empty menu; with no
  wrapped strategy the menu is the separator and the three entries.
\<close>

theorem BaseMenuDecorator_createMenu_append:
  "createMenu (BaseMenuDecorator (Some S)) ctx w =
     createMenu S ctx w @ [Separator] @
       [Action label_copy True (execute CopyCommand ctx),
        Action label_cut True (\<lambda>w'. w'),
        Action label_paste (clipboard w \<noteq> []) (execute PasteCommand ctx)] \<and>
   createMenu (BaseMenuDecorator (Some (MenuStrategy (\<lambda>ctx w. [])))) ctx w =
     [Separator] @
       [Action label_copy True (execute CopyCommand ctx),
        Action label_cut True (\<lambda>w'. w'),
        Action label_paste (clipboard w \<noteq> []) (execute PasteCommand ctx)] \<and>
   createMenu (BaseMenuDecorator None) ctx w =
     [Separator] @
       [Action label_copy True (execute CopyCommand ctx),
        Action label_cut True (\<lambda>w'. w'),
        Action label_paste (clipboard w \<noteq> []) (execute PasteCommand ctx)]"
  by (simp add: BaseMenuDecorator_def addCommandAction_default_def addCommandAction_NullCommand)
    (simp add: addCommandAction_def CopyCommand_def PasteCommand_def
      ICommand_isEnable_def ICommand_isVisible_def)

subsection \<open>The composite command\<close>

text \<open>
  C6. For every list of children (null pointers among them), every context and world,
  executing the composite built from the list runs the \<open>execute\<close> of the children that are
  not null, one after the other in the order of the list, each on the world the one before
  left, down to the last: the result is the left fold of \<open>execute\<close> over the non-null
  children. In particular the first of two children runs before the second, and a null
  child between them is skipped.
\<close>

theorem CompositeCommand_execute_in_order:
  "execute (combineCommands cs) ctx w = foldl (\<lambda>w c. execute c ctx w) w [c. Some c \<leftarrow> cs] \<and>
   execute (CompositeCommand cs) ctx w = foldl (\<lambda>w c. execute c ctx w) w [c. Some c \<leftarrow> cs] \<and>
   execute (combineCommands [Some c1, Some c2]) ctx w = execute c2 ctx (execute c1 ctx w) \<and>
   execute (combineCommands [Some c1, None, Some c2]) ctx w = execute c2 ctx (execute c1 ctx w)"
proof -
  have run: "execute (CompositeCommand xs) ctx v =
      foldl (\<lambda>w c. execute c ctx w) v [c. Some c \<leftarrow> xs]" for xs v
    by (simp add: CompositeCommand_def CompositeCommand_execute_foldl)
  have comb: "execute (combineCommands xs) ctx v =
      foldl (\<lambda>w c. execute c ctx w) v [c. Some c \<leftarrow> xs]" for xs v
    unfolding combineCommands_def run combineCommands_loop_filter
    by (simp only: append_Nil present_of_filter)
  show ?thesis
    using run [of cs w] comb [of cs w] comb [of "[Some c1, Some c2]" w]
      comb [of "[Some c1, None, Some c2]" w]
    by simp
qed

subsection \<open>The factory\<close>

text \<open>
  C7. For every identifier \<open>t\<close> and creator \<open>f\<close>, \<open>create t\<close> after
  \<open>registerCreator t f\<close> returns what calling \<open>f\<close> returns (for a callable \<open>g\<close>, the
  strategy \<open>g ()\<close>) and leaves the factory as it was. Registering \<open>t\<close> a second time gives
  the factory that the second registration alone gives, so \<open>create t\<close> then calls the
  second creator only.
\<close>

theorem registerCreator_create_last_wins:
  "create t (registerCreator t f fac) = (call f, registerCreator t f fac) \<and>
   fst (create t (registerCreator t (Some g) fac)) = Inr (g ()) \<and>
   registerCreator t f2 (registerCreator t f1 fac) = registerCreator t f2 fac \<and>
   fst (create t (registerCreator t (Some g2) (registerCreator t f1 fac))) = Inr (g2 ())"
  by (simp add: create_def registerCreator_def QMap_index_def call_def)

text \<open>
  C9. For every identifier with no creator in the factory, \<open>create\<close> returns the null
  strategy as a normal result (no exception), and the factory it leaves is the factory it
  was given.
\<close>

theorem create_unregistered_absent:
  "creators fac t = None \<Longrightarrow> create t fac = (Inr None, fac)"
  by (simp add: create_def)

theorem create_unregistered_absent_witness:
  "creators (registerMenuStrategies empty_factory) ''Triangle'' = None \<and>
   create ''Triangle'' (registerMenuStrategies empty_factory) =
     (Inr None, registerMenuStrategies empty_factory)"
  using create_unregistered_absent [of "registerMenuStrategies empty_factory" "''Triangle''"]
  by (simp add: creators_registerMenuStrategies empty_factory_def)

subsection \<open>Dispatch\<close>

text \<open>
  C5. A dispatch with no selectable object under the point is reached in two ways: \<^verbatim>\<open>itemAt\<close>
  returns null, or it returns a graphics item on which the cast to \<^verbatim>\<open>BaseCustomItem\<close>
  fails. If the item under the point has a type identifier with no creator in the factory,
  the handler ends exactly as it does when there is no item under the point: same outcome
  (the same menu, bound to the same context) and same factory; and an item that is not a
  \<^verbatim>\<open>BaseCustomItem\<close> ends the same way too. With a creator registered for
  \<^verbatim>\<open>"Background"\<close> that returns a strategy \<open>S\<close>, that outcome is the menu \<open>S\<close> builds on
  a fresh context; with none registered, all three dispatches show no menu and end in the
  default handling of the scene.
\<close>

theorem contextMenuEvent_fallback_same_menu:
  "creators fac (objectType baseItem) = None \<Longrightarrow>
     contextMenuEvent this (Some (IsBaseCustomItem baseItem)) fac w =
       contextMenuEvent this None fac w \<and>
     contextMenuEvent this (Some OtherGraphicsItem) fac w =
       contextMenuEvent this None fac w \<and>
     (\<forall>f S. creators fac ''Background'' = Some (Some f) \<and> f () = Some S \<longrightarrow>
        contextMenuEvent this None fac w =
          (MenuShown (createMenu S make_CommandContext w) make_CommandContext, fac)) \<and>
     (creators fac ''Background'' = None \<longrightarrow>
        contextMenuEvent this (Some (IsBaseCustomItem baseItem)) fac w = (DefaultHandling, fac) \<and>
        contextMenuEvent this (Some OtherGraphicsItem) fac w = (DefaultHandling, fac) \<and>
        contextMenuEvent this None fac w = (DefaultHandling, fac))"
  by (simp add: contextMenuEvent_def create_def defaultStrategy_dispatch_unregistered
      defaultStrategy_dispatch_registered)

theorem contextMenuEvent_fallback_same_menu_witness:
  "creators (registerMenuStrategies empty_factory) (objectType \<lparr>objectType = ''Triangle''\<rparr>) = None \<and>
   contextMenuEvent 7 (Some (IsBaseCustomItem \<lparr>objectType = ''Triangle''\<rparr>))
       (registerMenuStrategies empty_factory)
       \<lparr>clipboard = ''abc'', messageBoxes = [], debugOutput = []\<rparr> =
     contextMenuEvent 7 None (registerMenuStrategies empty_factory)
       \<lparr>clipboard = ''abc'', messageBoxes = [], debugOutput = []\<rparr> \<and>
   contextMenuEvent 7 (Some OtherGraphicsItem) (registerMenuStrategies empty_factory)
       \<lparr>clipboard = ''abc'', messageBoxes = [], debugOutput = []\<rparr> =
     contextMenuEvent 7 None (registerMenuStrategies empty_factory)
       \<lparr>clipboard = ''abc'', messageBoxes = [], debugOutput = []\<rparr> \<and>
   contextMenuEvent 7 None (registerMenuStrategies empty_factory)
       \<lparr>clipboard = ''abc'', messageBoxes = [], debugOutput = []\<rparr> =
     (MenuShown
        [Action label_add_slide True (\<lambda>w'. w'), Action label_layout True (\<lambda>w'. w'),
         Separator, Action label_paste True (\<lambda>w'. w')]
        make_CommandContext,
      registerMenuStrategies empty_factory) \<and>
   creators empty_factory (objectType \<lparr>objectType = ''Triangle''\<rparr>) = None \<and>
   creators empty_factory ''Background'' = None \<and>
   contextMenuEvent 7 (Some (IsBaseCustomItem \<lparr>objectType = ''Triangle''\<rparr>)) empty_factory
       \<lparr>clipboard = ''abc'', messageBoxes = [], debugOutput = []\<rparr> =
     (DefaultHandling, empty_factory) \<and>
   contextMenuEvent 7 (Some OtherGraphicsItem) empty_factory
       \<lparr>clipboard = ''abc'', messageBoxes = [], debugOutput = []\<rparr> =
     (DefaultHandling, empty_factory) \<and>
   contextMenuEvent 7 None empty_factory
       \<lparr>clipboard = ''abc'', messageBoxes = [], debugOutput = []\<rparr> =
     (DefaultHandling, empty_factory)"
proof -
  let ?w = "\<lparr>clipboard = ''abc'', messageBoxes = [], debugOutput = []\<rparr>"
  let ?it = "\<lparr>objectType = ''Triangle''\<rparr>"
  let ?fac = "registerMenuStrategies empty_factory"
  have h1: "creators ?fac (objectType ?it) = None"
    by (simp add: creators_registerMenuStrategies empty_factory_def)
  have h2: "creators empty_factory (objectType ?it) = None"
    by (simp add: empty_factory_def)
  have h3: "creators empty_factory ''Background'' = None"
    by (simp add: empty_factory_def)
  have h4: "creators ?fac ''Background'' =
      Some (Some (\<lambda>_. Some (PasteOnlyMenuDecorator (Some BackgroundMenuStrategy))))"
    by (simp add: creators_registerMenuStrategies)
  note a = contextMenuEvent_fallback_same_menu [OF h1, of 7 ?w]
  note b = contextMenuEvent_fallback_same_menu [OF h2, of 7 ?w]
  from a have a1: "contextMenuEvent 7 (Some (IsBaseCustomItem ?it)) ?fac ?w =
      contextMenuEvent 7 None ?fac ?w"
    and a1': "contextMenuEvent 7 (Some OtherGraphicsItem) ?fac ?w =
      contextMenuEvent 7 None ?fac ?w"
    by blast+
  from a h4 have a2: "contextMenuEvent 7 None ?fac ?w =
      (MenuShown (createMenu (PasteOnlyMenuDecorator (Some BackgroundMenuStrategy))
         make_CommandContext ?w) make_CommandContext, ?fac)"
    by blast
  from b h3 have b1: "contextMenuEvent 7 (Some (IsBaseCustomItem ?it)) empty_factory ?w =
      (DefaultHandling, empty_factory)"
    and b1': "contextMenuEvent 7 (Some OtherGraphicsItem) empty_factory ?w =
      (DefaultHandling, empty_factory)"
    and b2: "contextMenuEvent 7 None empty_factory ?w = (DefaultHandling, empty_factory)"
    by blast+
  show ?thesis
    using h1 h2 h3 a1 a1' a2 b1 b1' b2
    by (simp only: createMenu_Background_decorated simp_thms)
qed

end
